theory Spec2Isabelle
  imports Complex_Main "HOL-Library.Log_Nat"
begin

section \<open>Python values used by \<open>convert.py\<close>\<close>

text \<open>
  A Python \<open>str\<close> is modelled as an Isabelle \<open>string\<close>; one \<open>char\<close> stands for one code
  point below 256, so the development covers texts in the Latin-1 range.
  A Python \<open>float\<close> is an IEEE binary64 value: a finite number (held as the rational it
  denotes, \<open>Num 0\<close> being \<open>+0.0\<close>), the negative zero, the two infinities and NaN.
  Arithmetic computes the exact rational result and rounds it to the nearest binary64
  value, ties to even, as the hardware does.
\<close>

datatype pyfloat = Num rat | NegZero | PosInf | NegInf | NaN

datatype pyerror = IndexError | ValueError | OSError

definition pow2 :: "int \<Rightarrow> rat" where
  "pow2 e = (if 0 \<le> e then 2 ^ nat e else 1 / 2 ^ nat (- e))"

definition round_half_even :: "rat \<Rightarrow> int" where
  "round_half_even q =
     (let f = \<lfloor>q\<rfloor>; d = q - of_int f in
      if d < 1 / 2 then f else if 1 / 2 < d then f + 1
      else if even f then f else f + 1)"

text \<open>
  \<open>ilog2 q\<close> is the exponent \<open>e\<close> with \<open>2 ^ e \<le> q < 2 ^ (e + 1)\<close>, for \<open>q > 0\<close>;
  \<open>bitlen n\<close> is the number of binary digits of \<open>n\<close>.
\<close>

definition ilog2 :: "rat \<Rightarrow> int" where
  "ilog2 q = (if 1 \<le> q then bitlen \<lfloor>q\<rfloor> - 1 else - bitlen (\<lceil>1 / q\<rceil> - 1))"

text \<open>
  Rounding of an exact result to binary64: 53 significant bits, the least exponent
  of a normal number is \<open>-1022\<close> (below it the spacing stays \<open>2 ^ -1074\<close>), and a result
  of \<open>2 ^ 1024\<close> or more is an infinity.
\<close>

definition round_double :: "rat \<Rightarrow> pyfloat" where
  "round_double q =
     (if q = 0 then Num 0
      else
        let a = \<bar>q\<bar>;
            e = max (ilog2 a) (- 1022);
            u = pow2 (e - 52);
            v = of_int (round_half_even (a / u)) * u
        in if pow2 1024 \<le> v then (if q < 0 then NegInf else PosInf)
           else if v = 0 then (if q < 0 then NegZero else Num 0)
           else Num (if q < 0 then - v else v))"

fun float_neg :: "pyfloat \<Rightarrow> pyfloat" where
  "float_neg (Num q) = (if q = 0 then NegZero else Num (- q))"
| "float_neg NegZero = Num 0"
| "float_neg PosInf = NegInf"
| "float_neg NegInf = PosInf"
| "float_neg NaN = NaN"

text \<open>\<open>x + y\<close> on floats.\<close>

fun float_add :: "pyfloat \<Rightarrow> pyfloat \<Rightarrow> pyfloat" where
  "float_add NaN y = NaN"
| "float_add x NaN = NaN"
| "float_add PosInf NegInf = NaN"
| "float_add NegInf PosInf = NaN"
| "float_add PosInf y = PosInf"
| "float_add x PosInf = PosInf"
| "float_add NegInf y = NegInf"
| "float_add x NegInf = NegInf"
| "float_add NegZero y = y"
| "float_add x NegZero = x"
| "float_add (Num a) (Num b) = round_double (a + b)"

text \<open>\<open>x - y\<close> on floats.\<close>

definition float_sub :: "pyfloat \<Rightarrow> pyfloat \<Rightarrow> pyfloat" where
  "float_sub x y = float_add x (float_neg y)"



subsection \<open>Characters and digits\<close>

definition is_digit :: "char \<Rightarrow> bool" where
  "is_digit c = (48 \<le> (of_char c :: nat) \<and> (of_char c :: nat) \<le> 57)"

definition digit_val :: "char \<Rightarrow> nat" where
  "digit_val c = of_char c - 48"

definition digit_char :: "nat \<Rightarrow> char" where
  "digit_char d = ''0123456789'' ! (d mod 10)"

text \<open>\<open>str.isspace\<close> of one character: the white space of Unicode below 256.\<close>

definition isspace :: "char \<Rightarrow> bool" where
  "isspace c = ((of_char c :: nat) \<in> {9, 10, 11, 12, 13, 28, 29, 30, 31, 32, 133, 160})"

text \<open>The C-level white space that \<open>int()\<close> and \<open>float()\<close> skip around a literal.\<close>

definition Py_ISSPACE :: "char \<Rightarrow> bool" where
  "Py_ISSPACE c = ((of_char c :: nat) \<in> {9, 10, 11, 12, 13, 32})"

fun nat_of_digits :: "nat \<Rightarrow> string \<Rightarrow> nat" where
  "nat_of_digits acc [] = acc"
| "nat_of_digits acc (c # cs) = nat_of_digits (10 * acc + digit_val c) cs"

fun str_nat :: "nat \<Rightarrow> string" where
  "str_nat n = (if n < 10 then [digit_char n] else str_nat (n div 10) @ [digit_char (n mod 10)])"

declare str_nat.simps [simp del]

subsection \<open>Formatting with \<open>.3f\<close>\<close>

text \<open>
  \<open>format(x, ".3f")\<close>: the decimal expansion of the exact value of \<open>x\<close>, correctly rounded
  (ties to even) to three digits after the point; a sign for negative values and for
  the negative zero; \<open>inf\<close> and \<open>nan\<close> for the values that are not finite.
\<close>

definition fixed3 :: "rat \<Rightarrow> string" where
  "fixed3 a =
     (let n = nat (round_half_even (a * 1000)) in
      str_nat (n div 1000) @ ''.'' @
      [digit_char (n div 100 mod 10), digit_char (n div 10 mod 10), digit_char (n mod 10)])"

fun format_3f :: "pyfloat \<Rightarrow> string" where
  "format_3f (Num q) = (if q < 0 then ''-'' @ fixed3 (- q) else fixed3 q)"
| "format_3f NegZero = ''-0.000''"
| "format_3f PosInf = ''inf''"
| "format_3f NegInf = ''-inf''"
| "format_3f NaN = ''nan''"

subsection \<open>\<open>float(s)\<close> and \<open>int(s)\<close> on strings\<close>

text \<open>
  Both constructors first replace every white-space character above ASCII by a blank
  and every other character above ASCII by \<open>?\<close> (which no literal contains), strip
  the C-level white space at both ends, and accept single underscores between digits.
\<close>

definition to_ascii :: "string \<Rightarrow> string" where
  "to_ascii s =
     map (\<lambda>c. if (of_char c :: nat) < 127 then c
               else if isspace c then CHR '' '' else CHR ''?'') s"

definition strip_c_space :: "string \<Rightarrow> string" where
  "strip_c_space s = rev (dropWhile Py_ISSPACE (rev (dropWhile Py_ISSPACE s)))"

text \<open>
  Removal of the underscores of a numeric literal; \<open>prev\<close> is the character before.
  An underscore is allowed only after a digit and only before a digit.
\<close>

fun underscores :: "char \<Rightarrow> string \<Rightarrow> string option" where
  "underscores prev [] = (if prev = CHR ''_'' then None else Some [])"
| "underscores prev (c # cs) =
     (if c = CHR ''_'' then (if is_digit prev then underscores c cs else None)
      else if prev = CHR ''_'' \<and> \<not> is_digit c then None
      else map_option ((#) c) (underscores c cs))"

definition split_sign :: "string \<Rightarrow> bool \<times> string" where
  "split_sign s =
     (case s of
        c # cs \<Rightarrow> if c = CHR ''-'' then (True, cs) else if c = CHR ''+'' then (False, cs)
                  else (False, s)
      | [] \<Rightarrow> (False, s))"

definition lower_ascii :: "char \<Rightarrow> char" where
  "lower_ascii c =
     (case map_of (zip ''ABCDEFGHIJKLMNOPQRSTUVWXYZ'' ''abcdefghijklmnopqrstuvwxyz'') c of
        Some l \<Rightarrow> l
      | None \<Rightarrow> c)"

text \<open>
  The exponent part of a decimal literal, \<open>e\<close> or \<open>E\<close>, an optional sign and at least one
  digit, up to the end of the text; the empty text is the exponent 0.
\<close>

definition parse_exponent :: "string \<Rightarrow> int option" where
  "parse_exponent s =
     (case s of
        [] \<Rightarrow> Some 0
      | c # cs \<Rightarrow>
          if c = CHR ''e'' \<or> c = CHR ''E'' then
            (case split_sign cs of (neg, ds) \<Rightarrow>
               if ds \<noteq> [] \<and> list_all is_digit ds
               then Some (if neg then - int (nat_of_digits 0 ds) else int (nat_of_digits 0 ds))
               else None)
          else None)"

text \<open>
  The unsigned decimal literal: digits, an optional point and more digits (one digit
  at least in all), an optional exponent. The result is the exact value.
\<close>

definition parse_decimal :: "string \<Rightarrow> rat option" where
  "parse_decimal s =
     (let ip = takeWhile is_digit s;
          r1 = dropWhile is_digit s;
          fp = (case r1 of c # cs \<Rightarrow> if c = CHR ''.'' then takeWhile is_digit cs else [] | [] \<Rightarrow> []);
          r2 = (case r1 of c # cs \<Rightarrow> if c = CHR ''.'' then dropWhile is_digit cs else r1 | [] \<Rightarrow> [])
      in if ip = [] \<and> fp = [] then None
         else (case parse_exponent r2 of
                 None \<Rightarrow> None
               | Some ex \<Rightarrow>
                   Some (of_nat (nat_of_digits 0 (ip @ fp)) *
                         (let k = ex - int (length fp) in
                          if 0 \<le> k then 10 ^ nat k else 1 / 10 ^ nat (- k)))))"

definition float_of_literal :: "string \<Rightarrow> pyfloat option" where
  "float_of_literal s =
     (case split_sign s of (neg, body) \<Rightarrow>
        let low = map lower_ascii body in
        if low = ''inf'' \<or> low = ''infinity'' then Some (if neg then NegInf else PosInf)
        else if low = ''nan'' then Some NaN
        else (case parse_decimal body of
                None \<Rightarrow> None
              | Some q \<Rightarrow>
                  Some (if neg then float_neg (round_double q) else round_double q)))"

text \<open>\<open>float(s)\<close>; \<open>None\<close> stands for the \<open>ValueError\<close> of a text that is no literal.\<close>

definition float_of_str :: "string \<Rightarrow> pyfloat option" where
  "float_of_str s =
     (case underscores (CHR 0x00) (strip_c_space (to_ascii s)) of
        None \<Rightarrow> None
      | Some t \<Rightarrow> float_of_literal t)"

text \<open>
  \<open>int(s)\<close> in base 10: an optional sign and digits, with the same white space and
  underscores; a literal of more than 4300 digits is refused (the interpreter's default
  limit). \<open>None\<close> stands for the \<open>ValueError\<close>.
\<close>

definition int_max_str_digits :: nat where
  "int_max_str_digits = 4300"

definition int_of_str :: "string \<Rightarrow> int option" where
  "int_of_str s =
     (case split_sign (strip_c_space (to_ascii s)) of (neg, body) \<Rightarrow>
        (case underscores (CHR 0x00) body of
           None \<Rightarrow> None
         | Some ds \<Rightarrow>
             if ds \<noteq> [] \<and> list_all is_digit ds \<and> length ds \<le> int_max_str_digits
             then Some (if neg then - int (nat_of_digits 0 ds) else int (nat_of_digits 0 ds))
             else None))"

subsection \<open>\<open>str.rstrip()\<close> and \<open>str.split(sep)\<close>\<close>

definition rstrip :: "string \<Rightarrow> string" where
  "rstrip s = rev (dropWhile isspace (rev s))"

text \<open>
  \<open>s.split(sep)\<close> for a separator of one character: the text is cut at every
  occurrence of the separator, and empty fields are kept.
\<close>

fun str_split :: "string \<Rightarrow> char \<Rightarrow> string list" where
  "str_split [] sep = [[]]"
| "str_split (c # cs) sep =
     (if c = sep then [] # str_split cs sep
      else (case str_split cs sep of
              w # ws \<Rightarrow> (c # w) # ws
            | [] \<Rightarrow> [[c]]))"

text \<open>\<open>xs[i]\<close> for \<open>i \<ge> 0\<close>: an \<open>IndexError\<close> beyond the end of the list.\<close>

definition getitem :: "'a list \<Rightarrow> nat \<Rightarrow> pyerror + 'a" where
  "getitem xs i = (if i < length xs then Inr (xs ! i) else Inl IndexError)"

definition py_float :: "string \<Rightarrow> pyerror + pyfloat" where
  "py_float s = (case float_of_str s of None \<Rightarrow> Inl ValueError | Some x \<Rightarrow> Inr x)"

definition py_int :: "string \<Rightarrow> pyerror + int" where
  "py_int s = (case int_of_str s of None \<Rightarrow> Inl ValueError | Some n \<Rightarrow> Inr n)"

text \<open>Sequencing of computations that may raise.\<close>

definition bindE :: "pyerror + 'a \<Rightarrow> ('a \<Rightarrow> pyerror + 'b) \<Rightarrow> pyerror + 'b" where
  "bindE m f = (case m of Inl e \<Rightarrow> Inl e | Inr x \<Rightarrow> f x)"

text \<open>
  The text of an object inside an f-string: \<open>None\<close> prints as \<open>None\<close>, a string as
  itself.
\<close>

definition str_of_optional :: "string option \<Rightarrow> string" where
  "str_of_optional u = (case u of None \<Rightarrow> ''None'' | Some s \<Rightarrow> s)"

text \<open>
  The lines that iterating over a text file opened with \<open>open(path, "r")\<close> yields:
  the text is cut after every line break, each of \<open>\r\n\<close>, \<open>\r\<close> and \<open>\n\<close> counts as one
  line break and is delivered as \<open>\n\<close>; a last line without a line break is delivered
  as it is. \<open>cur\<close> holds the characters of the line being read.
\<close>

fun file_lines :: "string \<Rightarrow> string \<Rightarrow> string list" where
  "file_lines cur [] = (if cur = [] then [] else [cur])"
| "file_lines cur (c # cs) =
     (if c = CHR 0x0A then (cur @ [CHR 0x0A]) # file_lines [] cs
      else if c = CHR 0x0D then
        (case cs of
           d # ds \<Rightarrow> if d = CHR 0x0A then (cur @ [CHR 0x0A]) # file_lines [] ds
                     else (cur @ [CHR 0x0A]) # file_lines [] cs
         | [] \<Rightarrow> (cur @ [CHR 0x0A]) # file_lines [] cs)
      else file_lines (cur @ [c]) cs)"

section \<open>The class \<open>Annotation\<close>\<close>

text \<open>
  Modelled from the spec: the class \<open>Segment\<close> is imported from the library
  \<open>pyannote.core\<close>, and its source is not part of the repository. The specification
  describes it as an immutable pair of a start time and an end time, both floats.
  The fields \<open>start\<close> and \<open>end\<close> are named \<open>seg_start\<close> and \<open>seg_end\<close> here.
\<close>

record segment =
  seg_start :: pyfloat
  seg_end :: pyfloat

definition Segment :: "pyfloat \<Rightarrow> pyfloat \<Rightarrow> segment" where
  "Segment s e = \<lparr>seg_start = s, seg_end = e\<rparr>"

text \<open>
  Modelled from the spec: the property \<open>duration\<close> of \<open>Segment\<close>, which belongs to the same
  library. The specification gives it as end minus start, derived at each use and not
  stored.
\<close>

definition duration :: "segment \<Rightarrow> pyfloat" where
  "duration seg = float_sub (seg_end seg) (seg_start seg)"

text \<open>An entry of \<open>segment_list\<close> is a tuple of a segment, a track and a label.\<close>

type_synonym entry = "segment \<times> int \<times> string"

record annotation =
  segment_list :: "entry list"
  uri :: "string option"
  modality :: "string option"

definition from_records :: "entry list \<Rightarrow> string option \<Rightarrow> string option \<Rightarrow> annotation" where
  "from_records sl u m = \<lparr>segment_list = sl, uri = u, modality = m\<rparr>"

subsection \<open>\<open>from_rttm\<close>\<close>

text \<open>
  The body of the loop of \<open>from_rttm\<close> for one line, in the order in which Python
  evaluates it: \<open>float(line[3])\<close>, then \<open>float(line[3]) + float(line[4])\<close>, then
  \<open>int(line[2])\<close>, then \<open>str(line[7])\<close>.
\<close>

definition rttm_entry :: "string \<Rightarrow> pyerror + entry" where
  "rttm_entry l =
     (let line = str_split (rstrip l) (CHR '' '') in
      bindE (getitem line 3) (\<lambda>t3.
      bindE (py_float t3) (\<lambda>st.
      bindE (getitem line 3) (\<lambda>t3'.
      bindE (py_float t3') (\<lambda>a.
      bindE (getitem line 4) (\<lambda>t4.
      bindE (py_float t4) (\<lambda>b.
      bindE (getitem line 2) (\<lambda>t2.
      bindE (py_int t2) (\<lambda>track.
      bindE (getitem line 7) (\<lambda>label.
      Inr (Segment st (float_add a b), track, label)))))))))))"

text \<open>The loop: the entries are appended in the order of the lines; an error ends it.\<close>

fun rttm_loop :: "string list \<Rightarrow> entry list \<Rightarrow> pyerror + entry list" where
  "rttm_loop [] acc = Inr acc"
| "rttm_loop (l # ls) acc =
     (case rttm_entry l of
        Inl e \<Rightarrow> Inl e
      | Inr r \<Rightarrow> rttm_loop ls (acc @ [r]))"

text \<open>\<open>rttm_file\<close> is the sequence of lines that iterating over the argument yields.\<close>

definition from_rttm ::
  "string list \<Rightarrow> string option \<Rightarrow> string option \<Rightarrow> pyerror + annotation" where
  "from_rttm rttm_file u m =
     (case rttm_loop rttm_file [] of
        Inl e \<Rightarrow> Inl e
      | Inr sl \<Rightarrow> Inr (from_records sl u m))"

subsection \<open>\<open>from_audacity\<close>\<close>

text \<open>
  One line of the marker file: the line is stripped and split at tabs, the three
  fields are unpacked (a \<open>ValueError\<close> for any other number of fields), then the two
  times are converted.
\<close>

definition audacity_entry :: "string \<Rightarrow> pyerror + entry" where
  "audacity_entry l =
     (case str_split (rstrip l) (CHR 0x09) of
        [start, end', label] \<Rightarrow>
          bindE (py_float start) (\<lambda>s.
          bindE (py_float end') (\<lambda>e.
          Inr (Segment s e, 1, label)))
      | _ \<Rightarrow> Inl ValueError)"

fun audacity_loop :: "string list \<Rightarrow> entry list \<Rightarrow> pyerror + entry list" where
  "audacity_loop [] acc = Inr acc"
| "audacity_loop (l # ls) acc =
     (case audacity_entry l of
        Inl e \<Rightarrow> Inl e
      | Inr r \<Rightarrow> audacity_loop ls (acc @ [r]))"

text \<open>
  \<open>fs\<close> maps a path to the text of the file, when the file can be opened for reading;
  \<open>open\<close> raises an \<open>OSError\<close> otherwise.
\<close>

definition from_audacity ::
  "(string \<rightharpoonup> string) \<Rightarrow> string \<Rightarrow> string option \<Rightarrow> string option \<Rightarrow> pyerror + annotation" where
  "from_audacity fs audacity_file u m =
     (case fs audacity_file of
        None \<Rightarrow> Inl OSError
      | Some text \<Rightarrow>
          (case audacity_loop (file_lines [] text) [] of
             Inl e \<Rightarrow> Inl e
           | Inr sl \<Rightarrow> Inr (from_records sl u m)))"

subsection \<open>The serialisers\<close>

text \<open>The two f-strings: the line of the marker file and the line of the RTTM file.\<close>

definition audacity_line :: "segment \<Rightarrow> string \<Rightarrow> string" where
  "audacity_line seg label =
     format_3f (seg_start seg) @ [CHR 0x09] @ format_3f (seg_end seg) @ [CHR 0x09] @ label
       @ [CHR 0x0A]"

definition rttm_line :: "string option \<Rightarrow> segment \<Rightarrow> string \<Rightarrow> string" where
  "rttm_line u seg label =
     ''SPEAKER '' @ str_of_optional u @ '' 1 '' @ format_3f (seg_start seg) @ '' ''
       @ format_3f (duration seg) @ '' <NA> <NA> '' @ label @ '' <NA>'' @ [CHR 0x0A]"

text \<open>
  The generator \<open>_iter_audacity\<close>, named \<open>iter_audacity\<close> here: the lines it yields, one
  for each entry of \<open>segment_list\<close>, in that order.
\<close>

fun audacity_lines :: "entry list \<Rightarrow> string list" where
  "audacity_lines [] = []"
| "audacity_lines ((seg, track, label) # rest) = audacity_line seg label # audacity_lines rest"

definition iter_audacity :: "annotation \<Rightarrow> string list" where
  "iter_audacity a = audacity_lines (segment_list a)"

text \<open>\<open>to_audacity\<close>: the lines of the generator are collected and joined.\<close>

definition to_audacity :: "annotation \<Rightarrow> string" where
  "to_audacity a = concat [line. line \<leftarrow> iter_audacity a]"

text \<open>
  The two writers run on a state that holds the object \<open>self\<close> and the texts written
  so far to the file object (the parameter \<open>file\<close>, named \<open>fileobj\<close> here), one element
  for each call of \<open>file.write\<close>.
\<close>

record state =
  self :: annotation
  fileobj :: "string list"

definition file_write :: "string \<Rightarrow> state \<Rightarrow> state" where
  "file_write s st = st\<lparr>fileobj := fileobj st @ [s]\<rparr>"

definition write_audacity :: "state \<Rightarrow> state" where
  "write_audacity st = fold (\<lambda>line st'. file_write line st') (iter_audacity (self st)) st"

text \<open>
  \<open>to_rttm\<close>: the loop runs over the list that \<open>self.segment_list\<close> holds when it starts;
  each round reads \<open>self.uri\<close> and writes one line.
\<close>

definition to_rttm :: "state \<Rightarrow> state" where
  "to_rttm st =
     fold (\<lambda>(seg, track, label) st'. file_write (rttm_line (uri (self st')) seg label) st')
          (segment_list (self st)) st"

section \<open>Notions used in the statements\<close>

text \<open>
  The fields that \<open>from_rttm\<close> reads in a line, and the lines it accepts: at least 8
  fields, of which field 2 is an integer literal and fields 3 and 4 are float literals.
\<close>

definition rttm_fields :: "string \<Rightarrow> string list" where
  "rttm_fields l = str_split (rstrip l) (CHR '' '')"

definition rttm_line_ok :: "string \<Rightarrow> bool" where
  "rttm_line_ok l =
     (8 \<le> length (rttm_fields l)
      \<and> int_of_str (rttm_fields l ! 2) \<noteq> None
      \<and> float_of_str (rttm_fields l ! 3) \<noteq> None
      \<and> float_of_str (rttm_fields l ! 4) \<noteq> None)"

definition rttm_parsed :: "string \<Rightarrow> entry" where
  "rttm_parsed l =
     (Segment (the (float_of_str (rttm_fields l ! 3)))
              (float_add (the (float_of_str (rttm_fields l ! 3)))
                         (the (float_of_str (rttm_fields l ! 4)))),
      the (int_of_str (rttm_fields l ! 2)),
      rttm_fields l ! 7)"

text \<open>
  Following the wording of the specification: the tokens of a line that are separated
  by white space (runs of white space separate, and no token is empty), and a line
  with at least 8 such tokens of which the tokens 2, 3 and 4 are numeric literals.
\<close>

fun ws_split :: "string \<Rightarrow> string \<Rightarrow> string list" where
  "ws_split cur [] = (if cur = [] then [] else [cur])"
| "ws_split cur (c # cs) =
     (if isspace c then (if cur = [] then ws_split [] cs else cur # ws_split [] cs)
      else ws_split (cur @ [c]) cs)"

definition whitespace_tokens :: "string \<Rightarrow> string list" where
  "whitespace_tokens l = ws_split [] l"

definition stated_rttm_line_ok :: "string \<Rightarrow> bool" where
  "stated_rttm_line_ok l =
     (8 \<le> length (whitespace_tokens l)
      \<and> int_of_str (whitespace_tokens l ! 2) \<noteq> None
      \<and> float_of_str (whitespace_tokens l ! 3) \<noteq> None
      \<and> float_of_str (whitespace_tokens l ! 4) \<noteq> None)"

text \<open>
  The fields that \<open>from_audacity\<close> reads in a line, and the lines it accepts: exactly 3
  fields, of which the first two are float literals.
\<close>

definition audacity_fields :: "string \<Rightarrow> string list" where
  "audacity_fields l = str_split (rstrip l) (CHR 0x09)"

definition audacity_line_ok :: "string \<Rightarrow> bool" where
  "audacity_line_ok l =
     (length (audacity_fields l) = 3
      \<and> float_of_str (audacity_fields l ! 0) \<noteq> None
      \<and> float_of_str (audacity_fields l ! 1) \<noteq> None)"

definition audacity_parsed :: "string \<Rightarrow> entry" where
  "audacity_parsed l =
     (Segment (the (float_of_str (audacity_fields l ! 0)))
              (the (float_of_str (audacity_fields l ! 1))),
      1,
      audacity_fields l ! 2)"

text \<open>
  Following the wording of the specification: the fields of an input line separated
  by tabs, the line being taken without its line feed, and a line of exactly 3 such
  fields of which the first two are float literals.
\<close>

definition line_body :: "string \<Rightarrow> string" where
  "line_body l = (if l \<noteq> [] \<and> last l = CHR 0x0A then butlast l else l)"

definition tab_fields :: "string \<Rightarrow> string list" where
  "tab_fields l = str_split (line_body l) (CHR 0x09)"

definition stated_audacity_line_ok :: "string \<Rightarrow> bool" where
  "stated_audacity_line_ok l =
     (length (tab_fields l) = 3
      \<and> float_of_str (tab_fields l ! 0) \<noteq> None
      \<and> float_of_str (tab_fields l ! 1) \<noteq> None)"







section \<open>Properties of the serialisers\<close>

lemma fold_file_write:
  "fold (\<lambda>line st'. file_write line st') ls st = st\<lparr>fileobj := fileobj st @ ls\<rparr>"
  by (induction ls arbitrary: st) (simp_all add: file_write_def)

lemma fold_rttm_write:
  "fold (\<lambda>(seg, track, label) st'. file_write (rttm_line (uri (self st')) seg label) st') es st
   = st\<lparr>fileobj := fileobj st @ map (\<lambda>(seg, track, label). rttm_line (uri (self st)) seg label) es\<rparr>"
proof (induction es arbitrary: st)
  case Nil
  show ?case by simp
next
  case (Cons e es)
  obtain seg track label where e: "e = (seg, track, label)"
    by (cases e) auto
  show ?case
    by (simp add: e Cons.IH) (simp add: file_write_def)
qed

lemma audacity_lines_map:
  "audacity_lines es = map (\<lambda>(seg, track, label). audacity_line seg label) es"
  by (induction es) auto

lemma to_rttm_state:
  "to_rttm st =
     st\<lparr>fileobj := fileobj st
          @ map (\<lambda>(seg, track, label). rttm_line (uri (self st)) seg label) (segment_list (self st))\<rparr>"
  by (simp add: to_rttm_def fold_rttm_write)

lemma write_audacity_state:
  "write_audacity st =
     st\<lparr>fileobj := fileobj st
          @ map (\<lambda>(seg, track, label). audacity_line seg label) (segment_list (self st))\<rparr>"
  by (simp add: write_audacity_def fold_file_write iter_audacity_def audacity_lines_map)

lemma to_audacity_concat:
  "to_audacity a = concat (map (\<lambda>(seg, track, label). audacity_line seg label) (segment_list a))"
  by (simp add: to_audacity_def iter_audacity_def audacity_lines_map)

text \<open>
  C6: the string that \<open>to_audacity\<close> returns is the concatenation of the texts that
  \<open>write_audacity\<close> adds to the file object for the same annotation; each of these
  texts is the start and the end of a segment, formatted with \<open>.3f\<close>, and its label,
  separated by tabs and ended by a line feed; the track of an entry has no influence
  on the output.
\<close>

theorem C6_to_audacity_equals_written_lines:
  "to_audacity (self st) = concat (drop (length (fileobj st)) (fileobj (write_audacity st)))
   \<and> drop (length (fileobj st)) (fileobj (write_audacity st))
       = map (\<lambda>(seg, track, label).
                format_3f (seg_start seg) @ [CHR 0x09] @ format_3f (seg_end seg) @ [CHR 0x09]
                  @ label @ [CHR 0x0A])
             (segment_list (self st))
   \<and> take (length (fileobj st)) (fileobj (write_audacity st)) = fileobj st
   \<and> to_audacity (a\<lparr>segment_list := map (\<lambda>(seg, track, label). (seg, f track, label))
                                          (segment_list a)\<rparr>)
       = to_audacity a"
proof -
  have lines: "drop (length (fileobj st)) (fileobj (write_audacity st))
               = map (\<lambda>(seg, track, label). audacity_line seg label) (segment_list (self st))"
    by (simp add: write_audacity_state)
  have same: "(\<lambda>(seg, track, label). audacity_line seg label)
              = (\<lambda>(seg, track, label). format_3f (seg_start seg) @ [CHR 0x09]
                   @ format_3f (seg_end seg) @ [CHR 0x09] @ label @ [CHR 0x0A])"
    by (simp add: fun_eq_iff audacity_line_def)
  have tracks: "map (\<lambda>(seg, track, label). audacity_line seg label)
                  (map (\<lambda>(seg, track, label). (seg, f track, label)) es)
                = map (\<lambda>(seg, track, label). audacity_line seg label) es" for es :: "entry list"
    by (induction es) auto
  have c1: "to_audacity (self st) = concat (drop (length (fileobj st)) (fileobj (write_audacity st)))"
    by (simp only: lines to_audacity_concat)
  have c2: "drop (length (fileobj st)) (fileobj (write_audacity st))
       = map (\<lambda>(seg, track, label).
                format_3f (seg_start seg) @ [CHR 0x09] @ format_3f (seg_end seg) @ [CHR 0x09]
                  @ label @ [CHR 0x0A])
             (segment_list (self st))"
    by (simp only: lines same)
  have c3: "take (length (fileobj st)) (fileobj (write_audacity st)) = fileobj st"
    by (simp add: write_audacity_state)
  have c4: "to_audacity (a\<lparr>segment_list := map (\<lambda>(seg, track, label). (seg, f track, label))
                                          (segment_list a)\<rparr>)
       = to_audacity a"
    unfolding to_audacity_concat by (simp add: tracks del: map_map)
  from c1 c2 c3 c4 show ?thesis by blast
qed





text \<open>
  C7: the serialisers keep the order of the entries. \<open>to_rttm\<close> and \<open>write_audacity\<close>
  add to the file object exactly one line for each entry of \<open>segment_list\<close>, the line of
  the first entry first; the generator yields, and \<open>to_audacity\<close> joins, one line for
  each entry in the same order. Nothing is written or returned for the empty list.
\<close>

theorem C7_order_preserved:
  "fileobj (to_rttm st)
     = fileobj st @ map (\<lambda>(seg, track, label). rttm_line (uri (self st)) seg label)
                        (segment_list (self st))
   \<and> fileobj (write_audacity st)
     = fileobj st @ map (\<lambda>(seg, track, label). audacity_line seg label) (segment_list (self st))
   \<and> iter_audacity a = map (\<lambda>(seg, track, label). audacity_line seg label) (segment_list a)
   \<and> to_audacity a = concat (map (\<lambda>(seg, track, label). audacity_line seg label) (segment_list a))
   \<and> length (fileobj (to_rttm st)) = length (fileobj st) + length (segment_list (self st))
   \<and> length (fileobj (write_audacity st)) = length (fileobj st) + length (segment_list (self st))
   \<and> length (iter_audacity a) = length (segment_list a)
   \<and> to_audacity (from_records [] u m) = []
   \<and> fileobj (to_rttm \<lparr>self = from_records [] u m, fileobj = out\<rparr>) = out
   \<and> fileobj (write_audacity \<lparr>self = from_records [] u m, fileobj = out\<rparr>) = out"
  by (simp add: to_rttm_state write_audacity_state to_audacity_concat iter_audacity_def
      audacity_lines_map from_records_def)

text \<open>
  C9: the serialisers leave the annotation as it is. After \<open>to_rttm\<close> and after
  \<open>write_audacity\<close> the object \<open>self\<close> is the one before the call, with the same entries,
  uri and modality; a second call writes the same lines again, and \<open>to_audacity\<close>, which
  only returns a string, returns the same string before and after the writers ran.
\<close>

theorem C9_serialisers_leave_annotation_unchanged:
  "self (to_rttm st) = self st
   \<and> self (write_audacity st) = self st
   \<and> segment_list (self (to_rttm st)) = segment_list (self st)
   \<and> uri (self (to_rttm st)) = uri (self st)
   \<and> modality (self (to_rttm st)) = modality (self st)
   \<and> drop (length (fileobj (to_rttm st))) (fileobj (to_rttm (to_rttm st)))
       = drop (length (fileobj st)) (fileobj (to_rttm st))
   \<and> drop (length (fileobj (write_audacity st))) (fileobj (write_audacity (write_audacity st)))
       = drop (length (fileobj st)) (fileobj (write_audacity st))
   \<and> to_audacity (self (to_rttm st)) = to_audacity (self st)
   \<and> to_audacity (self (write_audacity st)) = to_audacity (self st)"
  by (simp add: to_rttm_state write_audacity_state)

section \<open>Evaluation on concrete texts\<close>

declare float_add.simps [simp del]

declare format_3f.simps [simp del]

lemma bitlen_pos: "0 < x \<Longrightarrow> bitlen x = bitlen (x div 2) + 1"
  by (subst compute_bitlen) simp

lemma floor_rat_numeral: "\<lfloor>numeral a / numeral b :: rat\<rfloor> = numeral a div numeral b"
  using floor_divide_of_int_eq [of "numeral a" "numeral b", where ?'a = rat] by simp

lemma ceiling_rat_numeral: "\<lceil>numeral a / numeral b :: rat\<rceil> = - (- numeral a div numeral b)"
  by (metis ceiling_def floor_divide_of_int_eq of_int_minus of_int_numeral minus_divide_left)

lemma str_nat_small: "n < 10 \<Longrightarrow> str_nat n = [digit_char n]"
  by (simp add: str_nat.simps [of n])

lemma str_nat_big: "\<not> n < 10 \<Longrightarrow> str_nat n = str_nat (n div 10) @ [digit_char (n mod 10)]"
  by (simp add: str_nat.simps [of n])

lemmas float_eval =
  float_of_str_def to_ascii_def strip_c_space_def Py_ISSPACE_def isspace_def is_digit_def
  float_of_literal_def split_sign_def lower_ascii_def parse_decimal_def parse_exponent_def
  digit_val_def round_double_def ilog2_def bitlen_pos pow2_def round_half_even_def Let_def
  floor_rat_numeral ceiling_rat_numeral

lemmas int_eval =
  int_of_str_def to_ascii_def strip_c_space_def Py_ISSPACE_def isspace_def is_digit_def
  split_sign_def digit_val_def int_max_str_digits_def

lemmas format_eval =
  format_3f.simps fixed3_def round_half_even_def Let_def str_nat_small str_nat_big digit_char_def
  floor_rat_numeral

lemma float_10_000: "float_of_str ''10.000'' = Some (Num 10)"
  by (simp add: float_eval)

lemma float_2_500: "float_of_str ''2.500'' = Some (Num (5 / 2))"
  by (simp add: float_eval)

lemma float_1_000: "float_of_str ''1.000'' = Some (Num 1)"
  by (simp add: float_eval)

lemma float_2_000: "float_of_str ''2.000'' = Some (Num 2)"
  by (simp add: float_eval)

lemma int_1: "int_of_str ''1'' = Some 1"
  by (simp add: int_eval)

lemma int_file1: "int_of_str ''file1'' = None"
  by (simp add: int_eval)

lemma add_10_2_5: "float_add (Num 10) (Num (5 / 2)) = Num (25 / 2)"
  by (simp add: float_add.simps float_eval)

lemma sub_12_5_10: "float_sub (Num (25 / 2)) (Num 10) = Num (5 / 2)"
  by (simp add: float_sub_def float_add.simps float_eval)

lemma format_10: "format_3f (Num 10) = ''10.000''"
  by (simp add: format_eval)

lemma format_2_5: "format_3f (Num (5 / 2)) = ''2.500''"
  by (simp add: format_eval)





lemmas entry_eval =
  rttm_entry_def audacity_entry_def rstrip_def isspace_def getitem_def bindE_def py_float_def
  py_int_def Segment_def Let_def

lemma rttm_entry_example:
  "rttm_entry ''SPEAKER file1 1 10.000 2.500 <NA> <NA> spk1 <NA>''
   = Inr (\<lparr>seg_start = Num 10, seg_end = Num (25 / 2)\<rparr>, 1, ''spk1'')"
  by (simp add: entry_eval float_10_000 float_2_500 int_1 add_10_2_5)

lemma rttm_entry_example_newline:
  "rttm_entry (''SPEAKER file1 1 10.000 2.500 <NA> <NA> spk1 <NA>'' @ [CHR 0x0A])
   = Inr (\<lparr>seg_start = Num 10, seg_end = Num (25 / 2)\<rparr>, 1, ''spk1'')"
  by (simp add: entry_eval float_10_000 float_2_500 int_1 add_10_2_5)

text \<open>
  C1: the RTTM line \<open>SPEAKER file1 1 10.000 2.500 <NA> <NA> spk1 <NA>\<close>, with or without
  its line feed, is parsed by \<open>from_rttm\<close> into one entry: the segment from 10 to 12.5
  (the end is the sum of start and duration), the track 1 and the label \<open>spk1\<close>. With
  the uri \<open>file1\<close>, \<open>to_rttm\<close> writes for this annotation exactly the line, followed by a
  line feed.
\<close>

theorem C1_rttm_line_scenario:
  "from_rttm [''SPEAKER file1 1 10.000 2.500 <NA> <NA> spk1 <NA>''] (Some ''file1'') m
     = Inr \<lparr>segment_list = [(\<lparr>seg_start = Num 10, seg_end = Num (25 / 2)\<rparr>, 1, ''spk1'')],
            uri = Some ''file1'', modality = m\<rparr>
   \<and> from_rttm [''SPEAKER file1 1 10.000 2.500 <NA> <NA> spk1 <NA>'' @ [CHR 0x0A]] (Some ''file1'') m
     = Inr \<lparr>segment_list = [(\<lparr>seg_start = Num 10, seg_end = Num (25 / 2)\<rparr>, 1, ''spk1'')],
            uri = Some ''file1'', modality = m\<rparr>
   \<and> float_of_str ''10.000'' = Some (Num 10)
   \<and> float_of_str ''2.500'' = Some (Num (5 / 2))
   \<and> float_add (Num 10) (Num (5 / 2)) = Num (25 / 2)
   \<and> fileobj (to_rttm \<lparr>self = \<lparr>segment_list = [(\<lparr>seg_start = Num 10, seg_end = Num (25 / 2)\<rparr>, 1, ''spk1'')],
                                    uri = Some ''file1'', modality = m\<rparr>,
                          fileobj = []\<rparr>)
     = [''SPEAKER file1 1 10.000 2.500 <NA> <NA> spk1 <NA>'' @ [CHR 0x0A]]"
proof -
  have parse: "from_rttm [''SPEAKER file1 1 10.000 2.500 <NA> <NA> spk1 <NA>''] (Some ''file1'') m
     = Inr \<lparr>segment_list = [(\<lparr>seg_start = Num 10, seg_end = Num (25 / 2)\<rparr>, 1, ''spk1'')],
            uri = Some ''file1'', modality = m\<rparr>"
    by (simp add: from_rttm_def rttm_entry_example from_records_def)
  have parse_nl: "from_rttm [''SPEAKER file1 1 10.000 2.500 <NA> <NA> spk1 <NA>'' @ [CHR 0x0A]] (Some ''file1'') m
     = Inr \<lparr>segment_list = [(\<lparr>seg_start = Num 10, seg_end = Num (25 / 2)\<rparr>, 1, ''spk1'')],
            uri = Some ''file1'', modality = m\<rparr>"
    using rttm_entry_example_newline by (simp add: from_rttm_def from_records_def)
  have written: "fileobj (to_rttm \<lparr>self = \<lparr>segment_list = [(\<lparr>seg_start = Num 10, seg_end = Num (25 / 2)\<rparr>, 1, ''spk1'')],
                                    uri = Some ''file1'', modality = m\<rparr>,
                          fileobj = []\<rparr>)
     = [''SPEAKER file1 1 10.000 2.500 <NA> <NA> spk1 <NA>'' @ [CHR 0x0A]]"
    by (simp add: to_rttm_state rttm_line_def str_of_optional_def duration_def sub_12_5_10
        format_10 format_2_5)
  from parse parse_nl written float_10_000 float_2_500 add_10_2_5 show ?thesis
    by blast
qed

section \<open>Parsing RTTM lines\<close>

lemma rttm_entry_ok: "rttm_line_ok l \<Longrightarrow> rttm_entry l = Inr (rttm_parsed l)"
  by (auto simp add: rttm_line_ok_def rttm_entry_def rttm_parsed_def rttm_fields_def
      getitem_def bindE_def py_float_def py_int_def Let_def)

lemma rttm_entry_not_ok:
  "\<not> rttm_line_ok l \<Longrightarrow> rttm_entry l = Inl IndexError \<or> rttm_entry l = Inl ValueError"
  by (auto simp add: rttm_line_ok_def rttm_entry_def rttm_fields_def
      getitem_def bindE_def py_float_def py_int_def Let_def split: option.splits)

lemma rttm_loop_ok:
  "\<forall>l\<in>set ls. rttm_line_ok l \<Longrightarrow> rttm_loop ls acc = Inr (acc @ map rttm_parsed ls)"
  by (induction ls arbitrary: acc) (simp_all add: rttm_entry_ok)

lemma rttm_loop_not_ok:
  "\<exists>l\<in>set ls. \<not> rttm_line_ok l \<Longrightarrow> rttm_loop ls acc = Inl IndexError \<or> rttm_loop ls acc = Inl ValueError"
proof (induction ls arbitrary: acc)
  case Nil
  then show ?case by simp
next
  case (Cons l ls)
  show ?case
  proof (cases "rttm_line_ok l")
    case True
    with Cons.prems have "\<exists>l\<in>set ls. \<not> rttm_line_ok l" by auto
    from Cons.IH [OF this] show ?thesis by (simp add: rttm_entry_ok [OF True])
  next
    case False
    from rttm_entry_not_ok [OF False] show ?thesis by auto
  qed
qed

text \<open>
  C3, as the code has it: \<open>from_rttm\<close> raises exactly when some line, once its trailing
  white space is stripped and it is cut at every single blank, has fewer than 8
  fields, or has a field 2 that is no integer literal, or a field 3 or 4 that is no float
  literal; the error is an \<open>IndexError\<close> or a \<open>ValueError\<close>. When every line has 8 such
  fields or more and its fields 2, 3 and 4 are numeric literals, no error is raised and
  one entry is appended for each line, in the order of the lines.
\<close>

theorem C3_from_rttm_fails_iff:
  "((\<exists>e. from_rttm ls u m = Inl e) \<longleftrightarrow> (\<exists>l\<in>set ls. \<not> rttm_line_ok l))
   \<and> (\<forall>e. from_rttm ls u m = Inl e \<longrightarrow> e = IndexError \<or> e = ValueError)
   \<and> ((\<forall>l\<in>set ls. rttm_line_ok l) \<longrightarrow>
        from_rttm ls u m = Inr (from_records (map rttm_parsed ls) u m)
        \<and> length (map rttm_parsed ls) = length ls)"
proof (cases "\<forall>l\<in>set ls. rttm_line_ok l")
  case True
  then show ?thesis by (simp add: from_rttm_def rttm_loop_ok)
next
  case False
  then have "\<exists>l\<in>set ls. \<not> rttm_line_ok l" by simp
  from rttm_loop_not_ok [OF this, of "[]"] False show ?thesis
    by (auto simp add: from_rttm_def)
qed

lemma rttm_fields_example:
  "rttm_fields ''SPEAKER file1 1 10.000 2.500 <NA> <NA> spk1 <NA>''
   = [''SPEAKER'', ''file1'', ''1'', ''10.000'', ''2.500'', ''<NA>'', ''<NA>'', ''spk1'', ''<NA>'']"
  by (simp add: rttm_fields_def rstrip_def isspace_def)

theorem C3_from_rttm_fails_iff_witness:
  "rttm_line_ok ''SPEAKER file1 1 10.000 2.500 <NA> <NA> spk1 <NA>''
   \<and> from_rttm [''SPEAKER file1 1 10.000 2.500 <NA> <NA> spk1 <NA>''] None None
       = Inr \<lparr>segment_list = [(\<lparr>seg_start = Num 10, seg_end = Num (25 / 2)\<rparr>, 1, ''spk1'')],
              uri = None, modality = None\<rparr>
   \<and> \<not> rttm_line_ok ''SPEAKER file1 1''
   \<and> from_rttm [''SPEAKER file1 1''] None None = Inl IndexError"
proof -
  have ok: "rttm_line_ok ''SPEAKER file1 1 10.000 2.500 <NA> <NA> spk1 <NA>''"
    by (simp add: rttm_line_ok_def rttm_fields_example float_10_000 float_2_500 int_1)
  have parsed: "rttm_parsed ''SPEAKER file1 1 10.000 2.500 <NA> <NA> spk1 <NA>''
      = (\<lparr>seg_start = Num 10, seg_end = Num (25 / 2)\<rparr>, 1, ''spk1'')"
    by (simp add: rttm_parsed_def rttm_fields_example float_10_000 float_2_500 int_1
        add_10_2_5 Segment_def)
  have short: "\<not> rttm_line_ok ''SPEAKER file1 1''"
    by (simp add: rttm_line_ok_def rttm_fields_def rstrip_def isspace_def)
  have raised: "from_rttm [''SPEAKER file1 1''] None None = Inl IndexError"
    by (simp add: from_rttm_def entry_eval)
  from C3_from_rttm_fails_iff [of "[''SPEAKER file1 1 10.000 2.500 <NA> <NA> spk1 <NA>'']" None None]
    ok parsed short raised
  show ?thesis by (simp add: from_records_def)
qed

text \<open>
  The statement of C3 with tokens separated by white space does not hold. The first
  line below has 9 tokens separated by white space, of which the tokens 2, 3 and 4 are
  numeric literals, and \<open>from_rttm\<close> raises a \<open>ValueError\<close> for it: the two blanks after
  \<open>SPEAKER\<close> give an empty field, so that field 2 is \<open>file1\<close>. The second line has only 6
  such tokens and is parsed, its fields 5 and 6 being empty.
\<close>

theorem C3_whitespace_tokens_counterexample:
  "stated_rttm_line_ok ''SPEAKER  file1 1 10.000 2.500 <NA> <NA> spk1 <NA>''
   \<and> from_rttm [''SPEAKER  file1 1 10.000 2.500 <NA> <NA> spk1 <NA>''] None None = Inl ValueError
   \<and> \<not> stated_rttm_line_ok ''SPEAKER file1 1 10.000 2.500   spk1''
   \<and> from_rttm [''SPEAKER file1 1 10.000 2.500   spk1''] None None
       = Inr \<lparr>segment_list = [(\<lparr>seg_start = Num 10, seg_end = Num (25 / 2)\<rparr>, 1, ''spk1'')],
              uri = None, modality = None\<rparr>"
proof -
  have t1: "whitespace_tokens ''SPEAKER  file1 1 10.000 2.500 <NA> <NA> spk1 <NA>''
      = [''SPEAKER'', ''file1'', ''1'', ''10.000'', ''2.500'', ''<NA>'', ''<NA>'', ''spk1'', ''<NA>'']"
    by (simp add: whitespace_tokens_def isspace_def)
  have c1: "stated_rttm_line_ok ''SPEAKER  file1 1 10.000 2.500 <NA> <NA> spk1 <NA>''"
    by (simp add: stated_rttm_line_ok_def t1 float_10_000 float_2_500 int_1)
  have float_1: "float_of_str ''1'' = Some (Num 1)"
    by (simp add: float_eval)
  have c2: "from_rttm [''SPEAKER  file1 1 10.000 2.500 <NA> <NA> spk1 <NA>''] None None = Inl ValueError"
    by (simp add: from_rttm_def entry_eval float_1 float_10_000 int_file1)
  have t2: "whitespace_tokens ''SPEAKER file1 1 10.000 2.500   spk1''
      = [''SPEAKER'', ''file1'', ''1'', ''10.000'', ''2.500'', ''spk1'']"
    by (simp add: whitespace_tokens_def isspace_def)
  have c3: "\<not> stated_rttm_line_ok ''SPEAKER file1 1 10.000 2.500   spk1''"
    by (simp add: stated_rttm_line_ok_def t2)
  have c4: "from_rttm [''SPEAKER file1 1 10.000 2.500   spk1''] None None
       = Inr \<lparr>segment_list = [(\<lparr>seg_start = Num 10, seg_end = Num (25 / 2)\<rparr>, 1, ''spk1'')],
              uri = None, modality = None\<rparr>"
    by (simp add: from_rttm_def entry_eval float_10_000 float_2_500 int_1 add_10_2_5
        from_records_def)
  from c1 c2 c3 c4 show ?thesis by blast
qed

section \<open>Parsing marker files\<close>

lemma audacity_entry_ok: "audacity_line_ok l \<Longrightarrow> audacity_entry l = Inr (audacity_parsed l)"
proof -
  assume ok: "audacity_line_ok l"
  then have "length (audacity_fields l) = 3"
    by (simp add: audacity_line_ok_def)
  then obtain a b c where f: "audacity_fields l = [a, b, c]"
    by (auto simp add: length_Suc_conv numeral_3_eq_3)
  with ok show ?thesis
    by (auto simp add: audacity_line_ok_def audacity_parsed_def audacity_entry_def bindE_def
        py_float_def audacity_fields_def)
qed

lemma audacity_entry_not_ok: "\<not> audacity_line_ok l \<Longrightarrow> audacity_entry l = Inl ValueError"
  by (auto simp add: audacity_line_ok_def audacity_entry_def bindE_def py_float_def
      audacity_fields_def split: list.splits option.splits)

lemma audacity_loop_ok:
  "\<forall>l\<in>set ls. audacity_line_ok l \<Longrightarrow> audacity_loop ls acc = Inr (acc @ map audacity_parsed ls)"
  by (induction ls arbitrary: acc) (simp_all add: audacity_entry_ok)

lemma audacity_loop_not_ok:
  "\<exists>l\<in>set ls. \<not> audacity_line_ok l \<Longrightarrow> audacity_loop ls acc = Inl ValueError"
proof (induction ls arbitrary: acc)
  case Nil
  then show ?case by simp
next
  case (Cons l ls)
  show ?case
  proof (cases "audacity_line_ok l")
    case True
    with Cons.prems have "\<exists>l\<in>set ls. \<not> audacity_line_ok l" by auto
    from Cons.IH [OF this] show ?thesis by (simp add: audacity_entry_ok [OF True])
  next
    case False
    from audacity_entry_not_ok [OF False] show ?thesis by simp
  qed
qed

text \<open>
  C4, as the code has it: for a file that can be opened, \<open>from_audacity\<close> raises exactly
  when some line, once its trailing white space is stripped, is not cut by its tabs
  into exactly 3 fields, or has a first or second field that is no float literal;
  the error is a \<open>ValueError\<close>. Otherwise every line gives one entry, in the order of the
  lines: the segment of the values of the first two fields, the track 1 and, as label,
  the third field of the stripped line.
\<close>

theorem C4_from_audacity_fails_iff:
  assumes "fs path = Some text"
  shows "((\<exists>e. from_audacity fs path u m = Inl e)
            \<longleftrightarrow> (\<exists>l\<in>set (file_lines [] text). \<not> audacity_line_ok l))
   \<and> (\<forall>e. from_audacity fs path u m = Inl e \<longrightarrow> e = ValueError)
   \<and> ((\<forall>l\<in>set (file_lines [] text). audacity_line_ok l) \<longrightarrow>
        from_audacity fs path u m
          = Inr (from_records (map audacity_parsed (file_lines [] text)) u m)
        \<and> (\<forall>l\<in>set (file_lines [] text).
              audacity_parsed l
                = (\<lparr>seg_start = the (float_of_str (str_split (rstrip l) (CHR 0x09) ! 0)),
                    seg_end = the (float_of_str (str_split (rstrip l) (CHR 0x09) ! 1))\<rparr>,
                   1, str_split (rstrip l) (CHR 0x09) ! 2)))"
proof (cases "\<forall>l\<in>set (file_lines [] text). audacity_line_ok l")
  case True
  with assms show ?thesis
    by (simp add: from_audacity_def audacity_loop_ok audacity_parsed_def audacity_fields_def
        Segment_def)
next
  case False
  then have "\<exists>l\<in>set (file_lines [] text). \<not> audacity_line_ok l" by simp
  from audacity_loop_not_ok [OF this, of "[]"] False assms show ?thesis
    by (auto simp add: from_audacity_def)
qed

lemma file_lines_example:
  "file_lines [] (''1.000'' @ [CHR 0x09] @ ''2.000'' @ [CHR 0x09] @ ''spkA'' @ [CHR 0x0A])
   = [''1.000'' @ [CHR 0x09] @ ''2.000'' @ [CHR 0x09] @ ''spkA'' @ [CHR 0x0A]]"
  by simp

lemma audacity_fields_example:
  "audacity_fields (''1.000'' @ [CHR 0x09] @ ''2.000'' @ [CHR 0x09] @ ''spkA'' @ [CHR 0x0A])
   = [''1.000'', ''2.000'', ''spkA'']"
  by (simp add: audacity_fields_def rstrip_def isspace_def)

theorem C4_from_audacity_fails_iff_witness:
  "[''labels.txt'' \<mapsto> ''1.000'' @ [CHR 0x09] @ ''2.000'' @ [CHR 0x09] @ ''spkA'' @ [CHR 0x0A]]
       ''labels.txt''
     = Some (''1.000'' @ [CHR 0x09] @ ''2.000'' @ [CHR 0x09] @ ''spkA'' @ [CHR 0x0A])
   \<and> audacity_line_ok (''1.000'' @ [CHR 0x09] @ ''2.000'' @ [CHR 0x09] @ ''spkA'' @ [CHR 0x0A])
   \<and> from_audacity
         [''labels.txt'' \<mapsto> ''1.000'' @ [CHR 0x09] @ ''2.000'' @ [CHR 0x09] @ ''spkA'' @ [CHR 0x0A]]
         ''labels.txt'' None None
       = Inr \<lparr>segment_list = [(\<lparr>seg_start = Num 1, seg_end = Num 2\<rparr>, 1, ''spkA'')],
              uri = None, modality = None\<rparr>"
proof -
  let ?text = "''1.000'' @ [CHR 0x09] @ ''2.000'' @ [CHR 0x09] @ ''spkA'' @ [CHR 0x0A]"
  have opened: "[''labels.txt'' \<mapsto> ?text] ''labels.txt'' = Some ?text"
    by simp
  have ok: "audacity_line_ok ?text"
    by (simp only: audacity_line_ok_def audacity_fields_example) (simp add: float_1_000 float_2_000)
  have parsed: "audacity_parsed ?text = (\<lparr>seg_start = Num 1, seg_end = Num 2\<rparr>, 1, ''spkA'')"
    by (simp only: audacity_parsed_def audacity_fields_example)
       (simp add: float_1_000 float_2_000 Segment_def)
  have all_ok: "\<forall>l\<in>set (file_lines [] ?text). audacity_line_ok l"
    using ok by (simp only: file_lines_example) simp
  from C4_from_audacity_fails_iff
         [of "[''labels.txt'' \<mapsto> ?text]" "''labels.txt''" ?text None None, OF opened] all_ok
  have "from_audacity [''labels.txt'' \<mapsto> ?text] ''labels.txt'' None None
          = Inr (from_records (map audacity_parsed (file_lines [] ?text)) None None)"
    by blast
  then have "from_audacity [''labels.txt'' \<mapsto> ?text] ''labels.txt'' None None
          = Inr \<lparr>segment_list = [(\<lparr>seg_start = Num 1, seg_end = Num 2\<rparr>, 1, ''spkA'')],
                 uri = None, modality = None\<rparr>"
    by (simp only: file_lines_example list.map parsed from_records_def)
  with opened ok show ?thesis by blast
qed

text \<open>
  The statement of C4 about the tab-separated fields of the input line does not hold.
  The line of the first file has exactly 3 tab-separated fields, the third one empty,
  and its first two fields are float literals, but \<open>from_audacity\<close> raises a
  \<open>ValueError\<close>: \<open>rstrip\<close> removes the last tab with the line feed, and 2 fields are
  left. The label of the second file ends with a blank, which the parsed label has
  lost.
\<close>

theorem C4_three_fields_counterexample:
  "stated_audacity_line_ok (''1.000'' @ [CHR 0x09] @ ''2.000'' @ [CHR 0x09] @ [CHR 0x0A])
   \<and> from_audacity
         [''labels.txt'' \<mapsto> ''1.000'' @ [CHR 0x09] @ ''2.000'' @ [CHR 0x09] @ [CHR 0x0A]]
         ''labels.txt'' None None
       = Inl ValueError
   \<and> stated_audacity_line_ok (''1.000'' @ [CHR 0x09] @ ''2.000'' @ [CHR 0x09] @ ''spk '' @ [CHR 0x0A])
   \<and> tab_fields (''1.000'' @ [CHR 0x09] @ ''2.000'' @ [CHR 0x09] @ ''spk '' @ [CHR 0x0A]) ! 2 = ''spk ''
   \<and> from_audacity
         [''labels.txt'' \<mapsto> ''1.000'' @ [CHR 0x09] @ ''2.000'' @ [CHR 0x09] @ ''spk '' @ [CHR 0x0A]]
         ''labels.txt'' None None
       = Inr \<lparr>segment_list = [(\<lparr>seg_start = Num 1, seg_end = Num 2\<rparr>, 1, ''spk'')],
              uri = None, modality = None\<rparr>"
proof -
  have c1: "stated_audacity_line_ok (''1.000'' @ [CHR 0x09] @ ''2.000'' @ [CHR 0x09] @ [CHR 0x0A])"
    by (simp add: stated_audacity_line_ok_def tab_fields_def line_body_def float_1_000 float_2_000)
  have c2: "from_audacity
         [''labels.txt'' \<mapsto> ''1.000'' @ [CHR 0x09] @ ''2.000'' @ [CHR 0x09] @ [CHR 0x0A]]
         ''labels.txt'' None None
       = Inl ValueError"
    by (simp add: from_audacity_def audacity_entry_def rstrip_def isspace_def)
  have c3: "stated_audacity_line_ok (''1.000'' @ [CHR 0x09] @ ''2.000'' @ [CHR 0x09] @ ''spk '' @ [CHR 0x0A])"
    by (simp add: stated_audacity_line_ok_def tab_fields_def line_body_def float_1_000 float_2_000)
  have c4: "tab_fields (''1.000'' @ [CHR 0x09] @ ''2.000'' @ [CHR 0x09] @ ''spk '' @ [CHR 0x0A]) ! 2 = ''spk ''"
    by (simp add: tab_fields_def line_body_def)
  have c5: "from_audacity
         [''labels.txt'' \<mapsto> ''1.000'' @ [CHR 0x09] @ ''2.000'' @ [CHR 0x09] @ ''spk '' @ [CHR 0x0A]]
         ''labels.txt'' None None
       = Inr \<lparr>segment_list = [(\<lparr>seg_start = Num 1, seg_end = Num 2\<rparr>, 1, ''spk'')],
              uri = None, modality = None\<rparr>"
    by (simp add: from_audacity_def entry_eval float_1_000 float_2_000 from_records_def)
  from c1 c2 c3 c4 c5 show ?thesis by blast
qed

section \<open>Durations\<close>

















section \<open>Round trip through the marker format\<close>



















end
